theory Spec2Isabelle
  imports Main "HOL-Library.Sublist"
begin

section \<open>Exceptions and byte strings\<close>

text \<open>
  Both scripts (\<^verbatim>\<open>preview-server.py\<close> and \<^verbatim>\<open>aws-version/preview-aws.py\<close>) are
  thin clients of the Python standard library. Their own code is embedded below function
  by function; the library functions they call (\<^verbatim>\<open>send_header\<close>, \<^verbatim>\<open>end_headers\<close> and
  \<^verbatim>\<open>flush_headers\<close> of \<^verbatim>\<open>http.server.BaseHTTPRequestHandler\<close>, the constructor and
  context manager of \<^verbatim>\<open>socketserver.TCPServer\<close>, \<^verbatim>\<open>serve_forever\<close>,
  \<^verbatim>\<open>webbrowser.open\<close>, \<^verbatim>\<open>os.path\<close>) are embedded from CPython's \<^verbatim>\<open>Lib/\<close> sources.
  A byte string and a Latin-1 or UTF-8 encoded text are a \<^typ>\<open>string\<close>, one
  \<^typ>\<open>char\<close> per byte.
\<close>

datatype exn = KeyboardInterrupt | OSError | AttributeError | OtherError string

definition CRLF :: string where
  "CRLF = [CHR 0x0D, CHR 0x0A]"

text \<open>\<^verbatim>\<open>str.lower\<close> on the code points below 256: the ASCII capitals and the Latin-1
  capitals (U+00C0 to U+00DE without the multiplication sign U+00D7) move up by 32.\<close>

definition lower_char :: "char \<Rightarrow> char" where
  "lower_char c =
     (let n = (of_char c :: nat)
      in if (65 \<le> n \<and> n \<le> 90) \<or> (192 \<le> n \<and> n \<le> 222 \<and> n \<noteq> 215)
         then char_of (n + 32) else c)"

definition lower :: "string \<Rightarrow> string" where
  "lower s = map lower_char s"

section \<open>The request handler\<close>

text \<open>
  The attributes of a handler instance that the response-finalization hook reads or
  writes. \<open>headers_buffer\<close> is the attribute \<^verbatim>\<open>_headers_buffer\<close>, which does not exist
  (\<open>None\<close>) until the first header is queued; \<open>wfile\<close> holds the bytes written to the
  connection so far. \<open>request_version\<close> starts as \<^verbatim>\<open>default_request_version\<close>, which
  is \<^verbatim>\<open>HTTP/0.9\<close>, and keeps that value for a request line of two words
  (\<^verbatim>\<open>GET /index.html\<close>) and while a malformed request line is being rejected.
\<close>

record handler =
  command :: string
  path :: string
  request_version :: string
  headers_buffer :: "string list option"
  wfile :: string
  close_connection :: bool
  directory :: string

text \<open>
  \<^verbatim>\<open>BaseHTTPRequestHandler.send_header\<close>:
  \<^verbatim>\<open>
  if self.request_version != 'HTTP/0.9':
      if not hasattr(self, '_headers_buffer'):
          self._headers_buffer = []
      self._headers_buffer.append(
          ("%s: %s\r\n" % (keyword, value)).encode('latin-1', 'strict'))
  if keyword.lower() == 'connection':
      if value.lower() == 'close':
          self.close_connection = True
      elif value.lower() == 'keep-alive':
          self.close_connection = False
  \<close>
\<close>

definition send_header :: "string \<Rightarrow> string \<Rightarrow> handler \<Rightarrow> handler" where
  "send_header keyword val h =
     (let h1 = (if request_version h \<noteq> ''HTTP/0.9''
                then h\<lparr>headers_buffer :=
                         Some ((case headers_buffer h of None \<Rightarrow> [] | Some b \<Rightarrow> b)
                               @ [keyword @ '': '' @ val @ CRLF])\<rparr>
                else h)
      in if lower keyword = ''connection''
         then (if lower val = ''close'' then h1\<lparr>close_connection := True\<rparr>
               else if lower val = ''keep-alive'' then h1\<lparr>close_connection := False\<rparr>
               else h1)
         else h1)"

text \<open>
  \<^verbatim>\<open>BaseHTTPRequestHandler.flush_headers\<close>:
  \<^verbatim>\<open>
  if hasattr(self, '_headers_buffer'):
      self.wfile.write(b"".join(self._headers_buffer))
      self._headers_buffer = []
  \<close>
\<close>

definition flush_headers :: "handler \<Rightarrow> handler" where
  "flush_headers h =
     (case headers_buffer h of
        None \<Rightarrow> h
      | Some b \<Rightarrow> h\<lparr>headers_buffer := Some [], wfile := wfile h @ concat b\<rparr>)"

text \<open>
  \<^verbatim>\<open>BaseHTTPRequestHandler.end_headers\<close>, the base class finalization:
  \<^verbatim>\<open>
  if self.request_version != 'HTTP/0.9':
      self._headers_buffer.append(b"\r\n")
      self.flush_headers()
  \<close>
  Reading the attribute \<^verbatim>\<open>_headers_buffer\<close> before any header was queued raises
  \<^verbatim>\<open>AttributeError\<close>.
\<close>

definition base_end_headers :: "handler \<Rightarrow> exn + handler" where
  "base_end_headers h =
     (if request_version h \<noteq> ''HTTP/0.9''
      then (case headers_buffer h of
              None \<Rightarrow> Inl AttributeError
            | Some b \<Rightarrow> Inr (flush_headers (h\<lparr>headers_buffer := Some (b @ [CRLF])\<rparr>)))
      else Inr h)"

text \<open>
  \<^verbatim>\<open>Handler.end_headers\<close> of \<^verbatim>\<open>preview-server.py\<close>:
  \<^verbatim>\<open>
  self.send_header('Access-Control-Allow-Origin', '*')
  self.send_header('Access-Control-Allow-Methods', 'GET, POST, OPTIONS')
  self.send_header('Access-Control-Allow-Headers', 'Content-Type')
  super().end_headers()
  \<close>
\<close>

definition preview_server_end_headers :: "handler \<Rightarrow> exn + handler" where
  "preview_server_end_headers h =
     (let h1 = send_header ''Access-Control-Allow-Origin'' ''*'' h;
          h2 = send_header ''Access-Control-Allow-Methods'' ''GET, POST, OPTIONS'' h1;
          h3 = send_header ''Access-Control-Allow-Headers'' ''Content-Type'' h2
      in base_end_headers h3)"

text \<open>
  \<^verbatim>\<open>Handler.end_headers\<close> of \<^verbatim>\<open>aws-version/preview-aws.py\<close>:
  \<^verbatim>\<open>
  self.send_header('Access-Control-Allow-Origin', '*')
  super().end_headers()
  \<close>
\<close>

definition preview_aws_end_headers :: "handler \<Rightarrow> exn + handler" where
  "preview_aws_end_headers h =
     (let h1 = send_header ''Access-Control-Allow-Origin'' ''*'' h
      in base_end_headers h1)"

subsection \<open>What a hook puts on the wire\<close>

text \<open>The header lines queued when the hook is entered (none while the attribute is
  missing), and the line a header occupies in the header section.\<close>

definition queued :: "handler \<Rightarrow> string" where
  "queued h = (case headers_buffer h of None \<Rightarrow> [] | Some b \<Rightarrow> concat b)"

definition header_line :: "string \<Rightarrow> string \<Rightarrow> string" where
  "header_line keyword val = keyword @ '': '' @ val @ CRLF"

text \<open>The bytes a hook writes to the connection when run in state \<open>h\<close>; \<open>None\<close> when
  the hook raises.\<close>

definition emitted :: "(handler \<Rightarrow> exn + handler) \<Rightarrow> handler \<Rightarrow> string option" where
  "emitted hook h =
     (case hook h of
        Inl e \<Rightarrow> None
      | Inr h' \<Rightarrow> Some (drop (length (wfile h)) (wfile h')))"

text \<open>The hook returns and the bytes it writes contain the line of the header.\<close>

definition emits_header :: "(handler \<Rightarrow> exn + handler) \<Rightarrow> string \<Rightarrow> string \<Rightarrow> handler \<Rightarrow> bool" where
  "emits_header hook keyword val h =
     (case emitted hook h of
        None \<Rightarrow> False
      | Some out \<Rightarrow> sublist (header_line keyword val) out)"

text \<open>A request line of two words, \<^verbatim>\<open>GET /index.html\<close>: the handler answers it as
  HTTP/0.9. The two states differ in the directory the script's \<^verbatim>\<open>__init__\<close> passes.\<close>

definition simple_request_aws :: handler where
  "simple_request_aws =
     \<lparr>command = ''GET'', path = ''/index.html'', request_version = ''HTTP/0.9'',
      headers_buffer = None, wfile = [], close_connection = True,
      directory = ''frontend''\<rparr>"

definition simple_request_server :: handler where
  "simple_request_server =
     \<lparr>command = ''GET'', path = ''/index.html'', request_version = ''HTTP/0.9'',
      headers_buffer = None, wfile = [], close_connection = True,
      directory = ''public''\<rparr>"

text \<open>A request \<^verbatim>\<open>POST /api HTTP/1.1\<close>, which the library rejects with status 501:
  a status line and a header are already queued when the hook is entered.\<close>

definition post_request :: handler where
  "post_request =
     \<lparr>command = ''POST'', path = ''/api'', request_version = ''HTTP/1.1'',
      headers_buffer = Some [''HTTP/1.0 501 Unsupported method'' @ CRLF,
                             ''Connection: close'' @ CRLF],
      wfile = [], close_connection = True, directory = ''public''\<rparr>"

section \<open>Paths\<close>

text \<open>\<^verbatim>\<open>posixpath.join\<close> for two arguments: an absolute second argument replaces the
  first; otherwise the two are joined with one separator.\<close>

definition os_path_join :: "string \<Rightarrow> string \<Rightarrow> string" where
  "os_path_join a b =
     (if take 1 b = ''/'' then b
      else if a = [] \<or> last a = CHR ''/'' then a @ b
      else a @ ''/'' @ b)"

text \<open>\<^verbatim>\<open>str.split('/')\<close> and \<^verbatim>\<open>'/'.join\<close>.\<close>

fun split_sep :: "string \<Rightarrow> string list" where
  "split_sep [] = [[]]"
| "split_sep (c # cs) =
     (if c = CHR ''/'' then [] # split_sep cs
      else (case split_sep cs of [] \<Rightarrow> [[c]] | w # ws \<Rightarrow> (c # w) # ws))"

fun join_sep :: "string list \<Rightarrow> string" where
  "join_sep [] = []"
| "join_sep [w] = w"
| "join_sep (w # ws) = w @ ''/'' @ join_sep ws"

text \<open>
  The loop of \<^verbatim>\<open>posixpath.normpath\<close> over the components:
  \<^verbatim>\<open>
  for comp in comps:
      if comp in (empty, dot):
          continue
      if (comp != dotdot or (not initial_slashes and not new_comps) or
           (new_comps and new_comps[-1] == dotdot)):
          new_comps.append(comp)
      elif new_comps:
          new_comps.pop()
  \<close>
\<close>

fun norm_comps :: "nat \<Rightarrow> string list \<Rightarrow> string list \<Rightarrow> string list" where
  "norm_comps initial_slashes [] new_comps = new_comps"
| "norm_comps initial_slashes (part # comps) new_comps =
     (if part = [] \<or> part = ''.'' then norm_comps initial_slashes comps new_comps
      else if part \<noteq> ''..'' \<or> (initial_slashes = 0 \<and> new_comps = [])
              \<or> (new_comps \<noteq> [] \<and> last new_comps = ''..'')
           then norm_comps initial_slashes comps (new_comps @ [part])
      else if new_comps \<noteq> [] then norm_comps initial_slashes comps (butlast new_comps)
      else norm_comps initial_slashes comps new_comps)"

definition os_path_normpath :: "string \<Rightarrow> string" where
  "os_path_normpath p =
     (if p = [] then ''.''
      else
        let initial_slashes =
              (if take 1 p = ''/''
               then (if take 2 p = ''//'' \<and> take 3 p \<noteq> ''///'' then 2 else 1)
               else (0::nat));
            comps = norm_comps initial_slashes (split_sep p) [];
            p' = replicate initial_slashes (CHR ''/'') @ join_sep comps
        in if p' = [] then ''.'' else p')"

text \<open>\<^verbatim>\<open>os.path.abspath\<close>, with the value of \<^verbatim>\<open>os.getcwd()\<close> as first argument.\<close>

definition os_path_abspath :: "string \<Rightarrow> string \<Rightarrow> string" where
  "os_path_abspath wd p =
     os_path_normpath (if take 1 p = ''/'' then p else os_path_join wd p)"

text \<open>\<^verbatim>\<open>posixpath.dirname\<close>: everything up to the last separator, without trailing
  separators unless it consists of separators only.\<close>

definition os_path_dirname :: "string \<Rightarrow> string" where
  "os_path_dirname p =
     (let hd_part = rev (dropWhile (\<lambda>c. c \<noteq> CHR ''/'') (rev p))
      in if hd_part \<noteq> [] \<and> hd_part \<noteq> replicate (length hd_part) (CHR ''/'')
         then rev (dropWhile (\<lambda>c. c = CHR ''/'') (rev hd_part))
         else hd_part)"

text \<open>
  The second half of \<^verbatim>\<open>SimpleHTTPRequestHandler.translate_path\<close>, from the components
  \<open>words\<close> of the unquoted and normalised request path to the file name:
  \<^verbatim>\<open>
  path = self.directory
  for word in words:
      if os.path.dirname(word) or word in (os.curdir, os.pardir):
          continue
      path = os.path.join(path, word)
  if trailing_slash:
      path += '/'
  return path
  \<close>
\<close>

fun translate_words :: "string \<Rightarrow> string list \<Rightarrow> string" where
  "translate_words p [] = p"
| "translate_words p (w # ws) =
     (if os_path_dirname w \<noteq> [] \<or> w = ''.'' \<or> w = ''..'' then translate_words p ws
      else translate_words (os_path_join p w) ws)"

definition translate_path :: "handler \<Rightarrow> string list \<Rightarrow> bool \<Rightarrow> string" where
  "translate_path h words trailing_slash =
     (let p = translate_words (directory h) words
      in if trailing_slash then p @ ''/'' else p)"

section \<open>The process and its environment\<close>

text \<open>
  What a run of a script depends on. \<open>fs\<close> lists what \<^verbatim>\<open>os.stat\<close> finds, symbolic links
  followed, under each absolute path; \<open>wd\<close> is the working directory the process was
  started in, \<open>script_dir\<close> the directory holding the script file, \<open>argv\<close> the command
  line. \<open>bind_error\<close> is the exception raised when binding the port fails,
  \<open>browser\<close> what \<^verbatim>\<open>webbrowser.open\<close> does (it returns \<^verbatim>\<open>False\<close> when no registered
  browser could be started), and \<open>events\<close> what arrives while the serve loop runs, in
  order: connections, and the interrupt signal that raises \<^verbatim>\<open>KeyboardInterrupt\<close> inside
  \<^verbatim>\<open>serve_forever\<close>.
\<close>

datatype entry = RegularFile | Folder | Special

datatype browser_result = Returns bool | Raises exn

datatype event = Request string | Interrupt

record env =
  argv :: "string list"
  script_dir :: string
  wd :: string
  fs :: "(string \<times> entry) list"
  bind_error :: "exn option"
  browser :: browser_result
  events :: "event list"

text \<open>The observable steps of a run, in order: a line printed, the listening socket
  created, bound, listening and closed, the browser asked to open a URL, a request handled
  by a handler instance serving a directory.\<close>

datatype action =
    Print string
  | Socket_open
  | Bind string int
  | Listen
  | Close
  | Browser_open string
  | Handle string string

text \<open>How a run stands once the events are used up: \<^verbatim>\<open>main\<close> has returned, an exception
  has left it, or it is still inside \<^verbatim>\<open>serve_forever\<close>.\<close>

datatype outcome = Returned | Uncaught exn | Serving

text \<open>The status of the process: 0 after \<^verbatim>\<open>main\<close> returns (the module ends without
  calling \<^verbatim>\<open>sys.exit\<close>), 1 after an uncaught exception, none while the process runs.\<close>

fun exit_status :: "outcome \<Rightarrow> int option" where
  "exit_status Returned = Some 0"
| "exit_status (Uncaught x) = Some 1"
| "exit_status Serving = None"

text \<open>\<^verbatim>\<open>os.path.exists\<close>: \<^verbatim>\<open>os.stat\<close> succeeds on the path, which the operating system
  resolves from the working directory when it is relative.\<close>

definition os_stat :: "env \<Rightarrow> string \<Rightarrow> entry option" where
  "os_stat e p = map_of (fs e) (os_path_join (wd e) p)"

definition os_path_exists :: "env \<Rightarrow> string \<Rightarrow> bool" where
  "os_path_exists e p = (os_stat e p \<noteq> None)"

text \<open>\<^verbatim>\<open>str\<close> of an integer, for the f-string \<^verbatim>\<open>f"http://localhost:{PORT}"\<close>.\<close>

fun str_nat :: "nat \<Rightarrow> string" where
  "str_nat n =
     (if n < 10 then [''0123456789'' ! n]
      else str_nat (n div 10) @ [''0123456789'' ! (n mod 10)])"

declare str_nat.simps [simp del]

definition str_int :: "int \<Rightarrow> string" where
  "str_int i = (if i < 0 then ''-'' @ str_nat (nat (- i)) else str_nat (nat i))"

text \<open>
  \<^verbatim>\<open>socketserver.TCPServer(server_address, RequestHandlerClass)\<close>: the constructor creates
  the socket, binds it and listens; when that raises, it closes the socket and raises
  again.
\<close>

definition TCPServer :: "env \<Rightarrow> string \<Rightarrow> int \<Rightarrow> action list \<times> exn option" where
  "TCPServer e host port =
     (case bind_error e of
        None \<Rightarrow> ([Socket_open, Bind host port, Listen], None)
      | Some x \<Rightarrow> ([Socket_open, Close], Some x))"

text \<open>
  \<^verbatim>\<open>serve_forever\<close>: nothing in either script calls \<^verbatim>\<open>shutdown()\<close>, so the loop never
  returns. Each connection is handled by a new handler instance (an exception of class
  \<^verbatim>\<open>Exception\<close> raised meanwhile is caught by the library and the loop goes on); the
  interrupt leaves the loop as \<^verbatim>\<open>KeyboardInterrupt\<close>. With the events used up the loop
  is waiting for the next one.
\<close>

datatype loop = Waiting | Raised exn

fun serve_forever :: "string \<Rightarrow> event list \<Rightarrow> action list \<times> loop" where
  "serve_forever d [] = ([], Waiting)"
| "serve_forever d (Request r # es) =
     (case serve_forever d es of (t, l) \<Rightarrow> (Handle d r # t, l))"
| "serve_forever d (Interrupt # es) = ([], Raised KeyboardInterrupt)"

subsection \<open>Printed lines\<close>

text \<open>The lines are the UTF-8 bytes of the f-strings; each starts with an emoji.\<close>

definition cross_mark :: string where
  "cross_mark = [CHR 0xE2, CHR 0x9D, CHR 0x8C]"

definition rocket :: string where
  "rocket = [CHR 0xF0, CHR 0x9F, CHR 0x9A, CHR 0x80]"

definition mobile_phone :: string where
  "mobile_phone = [CHR 0xF0, CHR 0x9F, CHR 0x93, CHR 0xB1]"

definition file_folder :: string where
  "file_folder = [CHR 0xF0, CHR 0x9F, CHR 0x93, CHR 0x81]"

definition stop_sign :: string where
  "stop_sign = [CHR 0xF0, CHR 0x9F, CHR 0x9B, CHR 0x91]"

definition globe :: string where
  "globe = [CHR 0xF0, CHR 0x9F, CHR 0x8C, CHR 0x90]"

definition light_bulb :: string where
  "light_bulb = [CHR 0xF0, CHR 0x9F, CHR 0x92, CHR 0xA1]"

definition waving_hand :: string where
  "waving_hand = [CHR 0xF0, CHR 0x9F, CHR 0x91, CHR 0x8B]"

definition msg_not_found :: "string \<Rightarrow> string" where
  "msg_not_found d =
     cross_mark @ '' Directory '' @ [CHR 0x27] @ d @ [CHR 0x27] @ '' not found!''"

definition msg_project_root :: string where
  "msg_project_root =
     ''Make sure you'' @ [CHR 0x27] @ ''re running this from the project root.''"

definition msg_manual :: "string \<Rightarrow> string" where
  "msg_manual url = light_bulb @ '' Manually open '' @ url @ '' in your browser''"

definition msg_stopped :: string where
  "msg_stopped = [CHR 0x0A] @ waving_hand @ '' Server stopped!''"

definition preview_server_msg_opening :: "string \<Rightarrow> string" where
  "preview_server_msg_opening url =
     globe @ '' Opening '' @ url @ '' in your default browser...''"

definition preview_aws_msg_opening :: "string \<Rightarrow> string" where
  "preview_aws_msg_opening url = globe @ '' Opening '' @ url @ '' in your browser...''"

subsection \<open>\<^verbatim>\<open>preview-server.py\<close>\<close>

definition preview_server_PORT :: int where
  "preview_server_PORT = 8080"

definition preview_server_DIRECTORY :: string where
  "preview_server_DIRECTORY = ''public''"

text \<open>\<^verbatim>\<open>Handler.__init__\<close>: \<^verbatim>\<open>super().__init__(*args, directory=DIRECTORY, **kwargs)\<close>;
  the base class stores the string as it is in \<^verbatim>\<open>self.directory\<close>.\<close>

definition preview_server_Handler_init :: "handler \<Rightarrow> handler" where
  "preview_server_Handler_init h = h\<lparr>directory := preview_server_DIRECTORY\<rparr>"

text \<open>
  \<^verbatim>\<open>main\<close>. The \<^verbatim>\<open>with\<close> statement closes the socket when its body is left, by the
  \<^verbatim>\<open>except KeyboardInterrupt\<close> clause or by an exception; the bare \<^verbatim>\<open>except:\<close> around
  \<^verbatim>\<open>webbrowser.open\<close> catches every exception, and the value \<^verbatim>\<open>webbrowser.open\<close>
  returns is not looked at.
\<close>

definition preview_server_main :: "env \<Rightarrow> action list \<times> outcome" where
  "preview_server_main e =
     (if \<not> os_path_exists e preview_server_DIRECTORY
      then ([Print (msg_not_found preview_server_DIRECTORY),
             Print msg_project_root], Returned)
      else
        (case TCPServer e [] preview_server_PORT of
           (t0, Some x) \<Rightarrow> (t0, Uncaught x)
         | (t0, None) \<Rightarrow>
             let url = ''http://localhost:'' @ str_int preview_server_PORT;
                 t1 = [Print (rocket @ '' Resume website preview server starting...''),
                       Print (mobile_phone @ '' Local URL: '' @ url),
                       Print (file_folder @ '' Serving: ''
                              @ os_path_abspath (wd e) preview_server_DIRECTORY),
                       Print (stop_sign @ '' Press Ctrl+C to stop'')];
                 t2 = (case browser e of
                         Returns b \<Rightarrow> [Browser_open url, Print (preview_server_msg_opening url)]
                       | Raises x \<Rightarrow> [Browser_open url, Print (msg_manual url)])
             in (case serve_forever preview_server_DIRECTORY (events e) of
                   (t3, Waiting) \<Rightarrow> (t0 @ t1 @ t2 @ t3, Serving)
                 | (t3, Raised x) \<Rightarrow>
                     if x = KeyboardInterrupt
                     then (t0 @ t1 @ t2 @ t3 @ [Print msg_stopped, Close], Returned)
                     else (t0 @ t1 @ t2 @ t3 @ [Close], Uncaught x))))"

subsection \<open>\<^verbatim>\<open>aws-version/preview-aws.py\<close>\<close>

definition preview_aws_PORT :: int where
  "preview_aws_PORT = 8081"

definition preview_aws_DIRECTORY :: string where
  "preview_aws_DIRECTORY = ''frontend''"

definition preview_aws_Handler_init :: "handler \<Rightarrow> handler" where
  "preview_aws_Handler_init h = h\<lparr>directory := preview_aws_DIRECTORY\<rparr>"

definition preview_aws_main :: "env \<Rightarrow> action list \<times> outcome" where
  "preview_aws_main e =
     (if \<not> os_path_exists e preview_aws_DIRECTORY
      then ([Print (msg_not_found preview_aws_DIRECTORY)], Returned)
      else
        (case TCPServer e [] preview_aws_PORT of
           (t0, Some x) \<Rightarrow> (t0, Uncaught x)
         | (t0, None) \<Rightarrow>
             let url = ''http://localhost:'' @ str_int preview_aws_PORT;
                 t1 = [Print (rocket @ '' AWS Resume website preview server starting...''),
                       Print (mobile_phone @ '' Local URL: '' @ url),
                       Print (stop_sign @ '' Press Ctrl+C to stop'')];
                 t2 = (case browser e of
                         Returns b \<Rightarrow> [Browser_open url, Print (preview_aws_msg_opening url)]
                       | Raises x \<Rightarrow> [Browser_open url, Print (msg_manual url)])
             in (case serve_forever preview_aws_DIRECTORY (events e) of
                   (t3, Waiting) \<Rightarrow> (t0 @ t1 @ t2 @ t3, Serving)
                 | (t3, Raised x) \<Rightarrow>
                     if x = KeyboardInterrupt
                     then (t0 @ t1 @ t2 @ t3 @ [Print msg_stopped, Close], Returned)
                     else (t0 @ t1 @ t2 @ t3 @ [Close], Uncaught x))))"

section \<open>Traces and example runs\<close>

text \<open>The steps of \<^verbatim>\<open>main\<close> from the server's constructor to the browser launch, with
  the f-strings evaluated; \<open>preview_server_main_started\<close> and \<open>preview_aws_main_started\<close>
  below show that a run which gets past the directory check and the bind begins with
  them.\<close>

definition preview_server_startup :: "env \<Rightarrow> action list" where
  "preview_server_startup e =
     [Socket_open, Bind [] preview_server_PORT, Listen,
      Print (rocket @ '' Resume website preview server starting...''),
      Print (mobile_phone @ '' Local URL: http://localhost:8080''),
      Print (file_folder @ '' Serving: ''
             @ os_path_abspath (wd e) preview_server_DIRECTORY),
      Print (stop_sign @ '' Press Ctrl+C to stop''),
      Browser_open ''http://localhost:8080'',
      Print (case browser e of
               Returns b \<Rightarrow> preview_server_msg_opening ''http://localhost:8080''
             | Raises x \<Rightarrow> msg_manual ''http://localhost:8080'')]"

definition preview_aws_startup :: "env \<Rightarrow> action list" where
  "preview_aws_startup e =
     [Socket_open, Bind [] preview_aws_PORT, Listen,
      Print (rocket @ '' AWS Resume website preview server starting...''),
      Print (mobile_phone @ '' Local URL: http://localhost:8081''),
      Print (stop_sign @ '' Press Ctrl+C to stop''),
      Browser_open ''http://localhost:8081'',
      Print (case browser e of
               Returns b \<Rightarrow> preview_aws_msg_opening ''http://localhost:8081''
             | Raises x \<Rightarrow> msg_manual ''http://localhost:8081'')]"

text \<open>A project checked out in \<^verbatim>\<open>/home/u/site\<close> with both directories, started from
  there: the browser opens, one request arrives, then the interrupt.\<close>

definition env_run :: env where
  "env_run =
     \<lparr>argv = [], script_dir = ''/home/u/site'', wd = ''/home/u/site'',
      fs = [(''/home/u/site/public'', Folder), (''/home/u/site/frontend'', Folder)],
      bind_error = None, browser = Returns True,
      events = [Request ''/index.html'', Interrupt]\<rparr>"

text \<open>The same run without the interrupt, with no content directory, with regular
  files in place of the directories, on a machine where no browser can be started, and
  started from the parent directory.\<close>

definition env_idle :: env where
  "env_idle = env_run\<lparr>events := [Request ''/index.html'']\<rparr>"

definition env_missing :: env where
  "env_missing = env_run\<lparr>fs := []\<rparr>"

definition env_regular_file :: env where
  "env_regular_file =
     env_run\<lparr>fs := [(''/home/u/site/public'', RegularFile),
                      (''/home/u/site/frontend'', RegularFile)]\<rparr>"

definition env_no_browser :: env where
  "env_no_browser = env_run\<lparr>browser := Returns False\<rparr>"

definition env_parent :: env where
  "env_parent = env_run\<lparr>wd := ''/home/u''\<rparr>"

section \<open>Properties of the response-finalization hook\<close>

lemma lower_connection:
  "lower ''Access-Control-Allow-Origin'' \<noteq> ''connection''"
  "lower ''Access-Control-Allow-Methods'' \<noteq> ''connection''"
  "lower ''Access-Control-Allow-Headers'' \<noteq> ''connection''"
  by (simp_all add: lower_def)

lemma preview_aws_end_headers_result:
  assumes "request_version h \<noteq> ''HTTP/0.9''"
  shows "preview_aws_end_headers h =
           Inr (h\<lparr>headers_buffer := Some [],
                  wfile := wfile h @ queued h
                           @ header_line ''Access-Control-Allow-Origin'' ''*'' @ CRLF\<rparr>)"
  using assms
  by (cases "headers_buffer h")
     (simp_all add: preview_aws_end_headers_def send_header_def base_end_headers_def
        flush_headers_def queued_def header_line_def lower_connection Let_def)

lemma preview_server_end_headers_result:
  assumes "request_version h \<noteq> ''HTTP/0.9''"
  shows "preview_server_end_headers h =
           Inr (h\<lparr>headers_buffer := Some [],
                  wfile := wfile h @ queued h
                           @ header_line ''Access-Control-Allow-Origin'' ''*''
                           @ header_line ''Access-Control-Allow-Methods'' ''GET, POST, OPTIONS''
                           @ header_line ''Access-Control-Allow-Headers'' ''Content-Type''
                           @ CRLF\<rparr>)"
  using assms
  by (cases "headers_buffer h")
     (simp_all add: preview_server_end_headers_def send_header_def base_end_headers_def
        flush_headers_def queued_def header_line_def lower_connection Let_def)

lemma end_headers_simple_request:
  assumes "request_version h = ''HTTP/0.9''"
  shows "preview_aws_end_headers h = Inr h" and "preview_server_end_headers h = Inr h"
  using assms
  by (simp_all add: preview_aws_end_headers_def preview_server_end_headers_def
        send_header_def base_end_headers_def lower_connection Let_def)

lemma emitted_aws:
  assumes "request_version h \<noteq> ''HTTP/0.9''"
  shows "emitted preview_aws_end_headers h =
           Some (queued h @ header_line ''Access-Control-Allow-Origin'' ''*'' @ CRLF)"
  by (simp add: emitted_def preview_aws_end_headers_result [OF assms])

lemma emitted_server:
  assumes "request_version h \<noteq> ''HTTP/0.9''"
  shows "emitted preview_server_end_headers h =
           Some (queued h
                 @ header_line ''Access-Control-Allow-Origin'' ''*''
                 @ header_line ''Access-Control-Allow-Methods'' ''GET, POST, OPTIONS''
                 @ header_line ''Access-Control-Allow-Headers'' ''Content-Type''
                 @ CRLF)"
  by (simp add: emitted_def preview_server_end_headers_result [OF assms])

subsection \<open>The cross-origin header\<close>

text \<open>
  C1, as stated: every response of either script includes the header
  \<^verbatim>\<open>Access-Control-Allow-Origin: *\<close>, whatever the request. Counterexample: the request
  line \<^verbatim>\<open>GET /index.html\<close> is answered as HTTP/0.9, where \<^verbatim>\<open>send_header\<close> queues nothing
  and the base class finalization writes nothing, so the response of \<^verbatim>\<open>preview-aws.py\<close>
  carries no header at all.
\<close>

theorem allow_origin_simple_request_counterexample:
  "\<not> emits_header preview_aws_end_headers ''Access-Control-Allow-Origin'' ''*''
       simple_request_aws"
  by (simp add: emits_header_def emitted_def simple_request_aws_def header_line_def
        end_headers_simple_request(1))

text \<open>
  C1, amended: for every request whose response has a header section (request version
  other than HTTP/0.9), whatever its path, method and the headers queued so far, the hook
  of either script returns and the bytes it writes contain the line
  \<^verbatim>\<open>Access-Control-Allow-Origin: *\<close>.
\<close>

theorem allow_origin_every_response:
  assumes "request_version h \<noteq> ''HTTP/0.9''"
  shows "emits_header preview_server_end_headers ''Access-Control-Allow-Origin'' ''*'' h
         \<and> emits_header preview_aws_end_headers ''Access-Control-Allow-Origin'' ''*'' h"
proof
  have "sublist (header_line ''Access-Control-Allow-Origin'' ''*'')
          (queued h @ header_line ''Access-Control-Allow-Origin'' ''*''
           @ (header_line ''Access-Control-Allow-Methods'' ''GET, POST, OPTIONS''
              @ header_line ''Access-Control-Allow-Headers'' ''Content-Type'' @ CRLF))"
    by (rule sublist_appendI)
  then show "emits_header preview_server_end_headers ''Access-Control-Allow-Origin'' ''*'' h"
    by (simp add: emits_header_def emitted_server [OF assms])
  have "sublist (header_line ''Access-Control-Allow-Origin'' ''*'')
          (queued h @ header_line ''Access-Control-Allow-Origin'' ''*'' @ CRLF)"
    by (rule sublist_appendI)
  then show "emits_header preview_aws_end_headers ''Access-Control-Allow-Origin'' ''*'' h"
    by (simp add: emits_header_def emitted_aws [OF assms])
qed

theorem allow_origin_every_response_witness:
  "request_version post_request \<noteq> ''HTTP/0.9''
   \<and> emits_header preview_server_end_headers ''Access-Control-Allow-Origin'' ''*'' post_request
   \<and> emits_header preview_aws_end_headers ''Access-Control-Allow-Origin'' ''*'' post_request"
proof -
  have v: "request_version post_request \<noteq> ''HTTP/0.9''"
    by (simp add: post_request_def)
  show ?thesis
    using v allow_origin_every_response [OF v] by simp
qed

subsection \<open>The extended headers\<close>

text \<open>
  C2, as stated: every response of \<^verbatim>\<open>preview-server.py\<close>, the script with the extended
  headers, also includes \<^verbatim>\<open>Access-Control-Allow-Methods: GET, POST, OPTIONS\<close> and
  \<^verbatim>\<open>Access-Control-Allow-Headers: Content-Type\<close>. Counterexample: the HTTP/0.9 response to
  \<^verbatim>\<open>GET /index.html\<close> has no header section, so the methods header is not in it.
\<close>

theorem extended_headers_simple_request_counterexample:
  "\<not> emits_header preview_server_end_headers
       ''Access-Control-Allow-Methods'' ''GET, POST, OPTIONS'' simple_request_server"
  by (simp add: emits_header_def emitted_def simple_request_server_def header_line_def
        end_headers_simple_request(2))

text \<open>
  C2, amended: for every response with a header section (request version other than
  HTTP/0.9), \<^verbatim>\<open>preview-server.py\<close> also writes the lines
  \<^verbatim>\<open>Access-Control-Allow-Methods: GET, POST, OPTIONS\<close> and
  \<^verbatim>\<open>Access-Control-Allow-Headers: Content-Type\<close>, while \<^verbatim>\<open>preview-aws.py\<close> adds to the
  queued header lines the line \<^verbatim>\<open>Access-Control-Allow-Origin: *\<close> and nothing else before
  the blank line.
\<close>

theorem extended_headers_every_response:
  assumes "request_version h \<noteq> ''HTTP/0.9''"
  shows "emits_header preview_server_end_headers
           ''Access-Control-Allow-Methods'' ''GET, POST, OPTIONS'' h
         \<and> emits_header preview_server_end_headers
             ''Access-Control-Allow-Headers'' ''Content-Type'' h
         \<and> emitted preview_aws_end_headers h =
             Some (queued h @ header_line ''Access-Control-Allow-Origin'' ''*'' @ CRLF)"
proof -
  have m: "sublist (header_line ''Access-Control-Allow-Methods'' ''GET, POST, OPTIONS'')
             ((queued h @ header_line ''Access-Control-Allow-Origin'' ''*'')
              @ header_line ''Access-Control-Allow-Methods'' ''GET, POST, OPTIONS''
              @ (header_line ''Access-Control-Allow-Headers'' ''Content-Type'' @ CRLF))"
    by (rule sublist_appendI)
  have a: "sublist (header_line ''Access-Control-Allow-Headers'' ''Content-Type'')
             ((queued h @ header_line ''Access-Control-Allow-Origin'' ''*''
               @ header_line ''Access-Control-Allow-Methods'' ''GET, POST, OPTIONS'')
              @ header_line ''Access-Control-Allow-Headers'' ''Content-Type'' @ CRLF)"
    by (rule sublist_appendI)
  from m a show ?thesis
    by (simp add: emits_header_def emitted_server [OF assms] emitted_aws [OF assms])
qed

theorem extended_headers_every_response_witness:
  "request_version post_request \<noteq> ''HTTP/0.9''
   \<and> emits_header preview_server_end_headers
       ''Access-Control-Allow-Methods'' ''GET, POST, OPTIONS'' post_request
   \<and> emits_header preview_server_end_headers
       ''Access-Control-Allow-Headers'' ''Content-Type'' post_request
   \<and> emitted preview_aws_end_headers post_request =
       Some (queued post_request @ header_line ''Access-Control-Allow-Origin'' ''*'' @ CRLF)"
proof -
  have v: "request_version post_request \<noteq> ''HTTP/0.9''"
    by (simp add: post_request_def)
  show ?thesis
    using v extended_headers_every_response [OF v] by simp
qed

subsection \<open>Injection before finalization\<close>

text \<open>
  C7: in the hook of either script every \<^verbatim>\<open>send_header\<close> call for an injected header
  comes before the base class finalization. When the finalization is invoked the
  injected lines are the last ones queued and nothing has been written yet; the header
  section written is then the lines queued before, the injected lines in the order of the
  calls, and the terminating blank line last. (A response to an HTTP/0.9 request has no
  header section.)
\<close>

theorem injected_before_finalization:
  assumes "request_version h \<noteq> ''HTTP/0.9''"
  shows "(\<exists>h3. preview_server_end_headers h = base_end_headers h3
               \<and> wfile h3 = wfile h
               \<and> queued h3 = queued h
                    @ header_line ''Access-Control-Allow-Origin'' ''*''
                    @ header_line ''Access-Control-Allow-Methods'' ''GET, POST, OPTIONS''
                    @ header_line ''Access-Control-Allow-Headers'' ''Content-Type'')
         \<and> emitted preview_server_end_headers h =
             Some (queued h
                   @ header_line ''Access-Control-Allow-Origin'' ''*''
                   @ header_line ''Access-Control-Allow-Methods'' ''GET, POST, OPTIONS''
                   @ header_line ''Access-Control-Allow-Headers'' ''Content-Type''
                   @ CRLF)
         \<and> (\<exists>h1. preview_aws_end_headers h = base_end_headers h1
               \<and> wfile h1 = wfile h
               \<and> queued h1 = queued h @ header_line ''Access-Control-Allow-Origin'' ''*'')
         \<and> emitted preview_aws_end_headers h =
             Some (queued h @ header_line ''Access-Control-Allow-Origin'' ''*'' @ CRLF)"
proof (intro conjI)
  let ?h1 = "send_header ''Access-Control-Allow-Origin'' ''*'' h"
  let ?h3 = "send_header ''Access-Control-Allow-Headers'' ''Content-Type''
               (send_header ''Access-Control-Allow-Methods'' ''GET, POST, OPTIONS'' ?h1)"
  have "preview_server_end_headers h = base_end_headers ?h3"
    by (simp add: preview_server_end_headers_def Let_def)
  moreover have "wfile ?h3 = wfile h"
    using assms by (simp add: send_header_def lower_connection Let_def)
  moreover have "queued ?h3 = queued h
                    @ header_line ''Access-Control-Allow-Origin'' ''*''
                    @ header_line ''Access-Control-Allow-Methods'' ''GET, POST, OPTIONS''
                    @ header_line ''Access-Control-Allow-Headers'' ''Content-Type''"
    using assms
    by (cases "headers_buffer h")
       (simp_all add: send_header_def lower_connection Let_def queued_def header_line_def)
  ultimately show "\<exists>h3. preview_server_end_headers h = base_end_headers h3
               \<and> wfile h3 = wfile h
               \<and> queued h3 = queued h
                    @ header_line ''Access-Control-Allow-Origin'' ''*''
                    @ header_line ''Access-Control-Allow-Methods'' ''GET, POST, OPTIONS''
                    @ header_line ''Access-Control-Allow-Headers'' ''Content-Type''"
    by blast
  have "preview_aws_end_headers h = base_end_headers ?h1"
    by (simp add: preview_aws_end_headers_def Let_def)
  moreover have "wfile ?h1 = wfile h"
    using assms by (simp add: send_header_def lower_connection Let_def)
  moreover have "queued ?h1 = queued h @ header_line ''Access-Control-Allow-Origin'' ''*''"
    using assms
    by (cases "headers_buffer h")
       (simp_all add: send_header_def lower_connection Let_def queued_def header_line_def)
  ultimately show "\<exists>h1. preview_aws_end_headers h = base_end_headers h1
               \<and> wfile h1 = wfile h
               \<and> queued h1 = queued h @ header_line ''Access-Control-Allow-Origin'' ''*''"
    by blast
qed (simp_all add: emitted_server [OF assms] emitted_aws [OF assms])

theorem injected_before_finalization_witness:
  "request_version post_request \<noteq> ''HTTP/0.9''
   \<and> emitted preview_server_end_headers post_request =
       Some (''HTTP/1.0 501 Unsupported method'' @ CRLF
             @ ''Connection: close'' @ CRLF
             @ ''Access-Control-Allow-Origin: *'' @ CRLF
             @ ''Access-Control-Allow-Methods: GET, POST, OPTIONS'' @ CRLF
             @ ''Access-Control-Allow-Headers: Content-Type'' @ CRLF
             @ CRLF)
   \<and> emitted preview_aws_end_headers post_request =
       Some (''HTTP/1.0 501 Unsupported method'' @ CRLF
             @ ''Connection: close'' @ CRLF
             @ ''Access-Control-Allow-Origin: *'' @ CRLF
             @ CRLF)"
proof -
  have v: "request_version post_request \<noteq> ''HTTP/0.9''"
    by (simp add: post_request_def)
  have q: "queued post_request =
             ''HTTP/1.0 501 Unsupported method'' @ CRLF @ ''Connection: close'' @ CRLF"
    by (simp add: post_request_def queued_def)
  show ?thesis
    using v injected_before_finalization [OF v] by (simp add: q header_line_def)
qed

section \<open>Properties of the process\<close>

lemma preview_server_url:
  "str_int preview_server_PORT = ''8080''"
  by (simp add: preview_server_PORT_def str_int_def str_nat.simps)

lemma preview_aws_url:
  "str_int preview_aws_PORT = ''8081''"
  by (simp add: preview_aws_PORT_def str_int_def str_nat.simps)

lemma serve_forever_actions:
  "a \<in> set (fst (serve_forever d es)) \<Longrightarrow> \<exists>r. a = Handle d r"
  by (induction d es rule: serve_forever.induct) (auto split: prod.splits)

lemma serve_forever_waiting:
  "Interrupt \<notin> set es \<Longrightarrow> snd (serve_forever d es) = Waiting"
  by (induction d es rule: serve_forever.induct) (auto split: prod.splits)

lemma serve_forever_interrupt:
  "serve_forever d (map Request rs @ Interrupt # rest) =
     (map (Handle d) rs, Raised KeyboardInterrupt)"
  by (induction rs) simp_all

lemma serve_forever_raised:
  "serve_forever d es = (t, Raised x) \<Longrightarrow> x = KeyboardInterrupt"
  by (induction d es arbitrary: t rule: serve_forever.induct) (auto split: prod.splits)

lemma preview_server_main_missing:
  assumes "\<not> os_path_exists e preview_server_DIRECTORY"
  shows "preview_server_main e =
           ([Print (msg_not_found preview_server_DIRECTORY), Print msg_project_root],
            Returned)"
  using assms by (simp add: preview_server_main_def)

lemma preview_aws_main_missing:
  assumes "\<not> os_path_exists e preview_aws_DIRECTORY"
  shows "preview_aws_main e = ([Print (msg_not_found preview_aws_DIRECTORY)], Returned)"
  using assms by (simp add: preview_aws_main_def)

lemma preview_server_main_started:
  assumes "os_path_exists e preview_server_DIRECTORY" "bind_error e = None"
  shows "preview_server_main e =
           (case serve_forever preview_server_DIRECTORY (events e) of
              (t3, Waiting) \<Rightarrow> (preview_server_startup e @ t3, Serving)
            | (t3, Raised x) \<Rightarrow>
                (preview_server_startup e @ t3 @ [Print msg_stopped, Close], Returned))"
proof -
  obtain t3 l where s: "serve_forever preview_server_DIRECTORY (events e) = (t3, l)"
    by (cases "serve_forever preview_server_DIRECTORY (events e)")
  show ?thesis
  proof (cases l)
    case Waiting
    with s assms show ?thesis
      by (cases "browser e")
         (simp_all add: preview_server_main_def TCPServer_def preview_server_url
            preview_server_startup_def Let_def)
  next
    case (Raised x)
    with s have "x = KeyboardInterrupt" by (simp add: serve_forever_raised)
    with s Raised assms show ?thesis
      by (cases "browser e")
         (simp_all add: preview_server_main_def TCPServer_def preview_server_url
            preview_server_startup_def Let_def)
  qed
qed

lemma preview_aws_main_started:
  assumes "os_path_exists e preview_aws_DIRECTORY" "bind_error e = None"
  shows "preview_aws_main e =
           (case serve_forever preview_aws_DIRECTORY (events e) of
              (t3, Waiting) \<Rightarrow> (preview_aws_startup e @ t3, Serving)
            | (t3, Raised x) \<Rightarrow>
                (preview_aws_startup e @ t3 @ [Print msg_stopped, Close], Returned))"
proof -
  obtain t3 l where s: "serve_forever preview_aws_DIRECTORY (events e) = (t3, l)"
    by (cases "serve_forever preview_aws_DIRECTORY (events e)")
  show ?thesis
  proof (cases l)
    case Waiting
    with s assms show ?thesis
      by (cases "browser e")
         (simp_all add: preview_aws_main_def TCPServer_def preview_aws_url
            preview_aws_startup_def Let_def)
  next
    case (Raised x)
    with s have "x = KeyboardInterrupt" by (simp add: serve_forever_raised)
    with s Raised assms show ?thesis
      by (cases "browser e")
         (simp_all add: preview_aws_main_def TCPServer_def preview_aws_url
            preview_aws_startup_def Let_def)
  qed
qed

lemma startup_no_close:
  "Close \<notin> set (preview_server_startup e)" "Close \<notin> set (preview_aws_startup e)"
  by (simp_all add: preview_server_startup_def preview_aws_startup_def)

lemma handle_no_close: "Close \<notin> set (map (Handle d) rs)"
  by auto

lemma main_waiting:
  assumes "bind_error e = None" "Interrupt \<notin> set (events e)"
  shows "os_path_exists e preview_server_DIRECTORY \<Longrightarrow>
           snd (preview_server_main e) = Serving
           \<and> Close \<notin> set (fst (preview_server_main e))"
    and "os_path_exists e preview_aws_DIRECTORY \<Longrightarrow>
           snd (preview_aws_main e) = Serving \<and> Close \<notin> set (fst (preview_aws_main e))"
proof -
  have w: "snd (serve_forever d (events e)) = Waiting" for d
    using assms(2) by (rule serve_forever_waiting)
  have c: "Close \<notin> set (fst (serve_forever d (events e)))" for d
    using serve_forever_actions [of Close d "events e"] by auto
  show "os_path_exists e preview_server_DIRECTORY \<Longrightarrow>
           snd (preview_server_main e) = Serving
           \<and> Close \<notin> set (fst (preview_server_main e))"
    using w [of preview_server_DIRECTORY] c [of preview_server_DIRECTORY] assms(1)
    by (cases "serve_forever preview_server_DIRECTORY (events e)")
       (simp add: preview_server_main_started startup_no_close)
  show "os_path_exists e preview_aws_DIRECTORY \<Longrightarrow>
           snd (preview_aws_main e) = Serving \<and> Close \<notin> set (fst (preview_aws_main e))"
    using w [of preview_aws_DIRECTORY] c [of preview_aws_DIRECTORY] assms(1)
    by (cases "serve_forever preview_aws_DIRECTORY (events e)")
       (simp add: preview_aws_main_started startup_no_close)
qed

lemma main_interrupted:
  assumes "bind_error e = None" "events e = map Request rs @ Interrupt # rest"
  shows "os_path_exists e preview_server_DIRECTORY \<Longrightarrow>
           preview_server_main e =
             (preview_server_startup e @ map (Handle preview_server_DIRECTORY) rs
              @ [Print msg_stopped, Close], Returned)"
    and "os_path_exists e preview_aws_DIRECTORY \<Longrightarrow>
           preview_aws_main e =
             (preview_aws_startup e @ map (Handle preview_aws_DIRECTORY) rs
              @ [Print msg_stopped, Close], Returned)"
  using assms
  by (simp_all add: preview_server_main_started preview_aws_main_started
        serve_forever_interrupt)

lemma count_close:
  "count_list (preview_server_startup e @ map (Handle d) rs @ [Print msg_stopped, Close])
     Close = 1"
  "count_list (preview_aws_startup e @ map (Handle d) rs @ [Print msg_stopped, Close])
     Close = 1"
  using handle_no_close [of d rs]
  by (simp_all add: count_list_0_iff startup_no_close)

lemma preview_server_main_bind_error:
  assumes "os_path_exists e preview_server_DIRECTORY" "bind_error e = Some x"
  shows "preview_server_main e = ([Socket_open, Close], Uncaught x)"
  using assms by (simp add: preview_server_main_def TCPServer_def)

lemma preview_aws_main_bind_error:
  assumes "os_path_exists e preview_aws_DIRECTORY" "bind_error e = Some x"
  shows "preview_aws_main e = ([Socket_open, Close], Uncaught x)"
  using assms by (simp add: preview_aws_main_def TCPServer_def)

lemma preview_server_main_trace:
  assumes "os_path_exists e preview_server_DIRECTORY" "bind_error e = None"
  shows "\<exists>t3 t4. fst (preview_server_main e) = preview_server_startup e @ t3 @ t4
                 \<and> set t3 \<subseteq> range (Handle preview_server_DIRECTORY)
                 \<and> (t4 = [] \<or> t4 = [Print msg_stopped, Close])"
proof -
  obtain t3 l where s: "serve_forever preview_server_DIRECTORY (events e) = (t3, l)"
    by (cases "serve_forever preview_server_DIRECTORY (events e)")
  have "set t3 \<subseteq> range (Handle preview_server_DIRECTORY)"
    using serve_forever_actions [of _ preview_server_DIRECTORY "events e"] s by auto
  moreover have "fst (preview_server_main e) = preview_server_startup e @ t3 @ []
                 \<or> fst (preview_server_main e)
                    = preview_server_startup e @ t3 @ [Print msg_stopped, Close]"
    using s by (cases l) (simp_all add: preview_server_main_started [OF assms])
  ultimately show ?thesis by blast
qed

lemma preview_aws_main_trace:
  assumes "os_path_exists e preview_aws_DIRECTORY" "bind_error e = None"
  shows "\<exists>t3 t4. fst (preview_aws_main e) = preview_aws_startup e @ t3 @ t4
                 \<and> set t3 \<subseteq> range (Handle preview_aws_DIRECTORY)
                 \<and> (t4 = [] \<or> t4 = [Print msg_stopped, Close])"
proof -
  obtain t3 l where s: "serve_forever preview_aws_DIRECTORY (events e) = (t3, l)"
    by (cases "serve_forever preview_aws_DIRECTORY (events e)")
  have "set t3 \<subseteq> range (Handle preview_aws_DIRECTORY)"
    using serve_forever_actions [of _ preview_aws_DIRECTORY "events e"] s by auto
  moreover have "fst (preview_aws_main e) = preview_aws_startup e @ t3 @ []
                 \<or> fst (preview_aws_main e)
                    = preview_aws_startup e @ t3 @ [Print msg_stopped, Close]"
    using s by (cases l) (simp_all add: preview_aws_main_started [OF assms])
  ultimately show ?thesis by blast
qed

lemma manual_not_stopped: "msg_manual url \<noteq> msg_stopped"
  by (simp add: msg_manual_def msg_stopped_def light_bulb_def)

lemma preview_server_startup_manual:
  "Print (msg_manual ''http://localhost:8080'') \<in> set (preview_server_startup e)
     \<longleftrightarrow> (\<exists>x. browser e = Raises x)"
  by (cases "browser e")
     (simp_all add: preview_server_startup_def msg_manual_def preview_server_msg_opening_def
        light_bulb_def rocket_def mobile_phone_def file_folder_def stop_sign_def globe_def)

lemma preview_aws_startup_manual:
  "Print (msg_manual ''http://localhost:8081'') \<in> set (preview_aws_startup e)
     \<longleftrightarrow> (\<exists>x. browser e = Raises x)"
  by (cases "browser e")
     (simp_all add: preview_aws_startup_def msg_manual_def preview_aws_msg_opening_def
        light_bulb_def rocket_def mobile_phone_def stop_sign_def globe_def)

lemma startup_opening:
  "browser e = Returns b \<Longrightarrow>
     Print (preview_server_msg_opening ''http://localhost:8080'')
       \<in> set (preview_server_startup e)"
  "browser e = Returns b \<Longrightarrow>
     Print (preview_aws_msg_opening ''http://localhost:8081'') \<in> set (preview_aws_startup e)"
  by (simp_all add: preview_server_startup_def preview_aws_startup_def)

lemma preview_server_main_manual:
  assumes "os_path_exists e preview_server_DIRECTORY" "bind_error e = None"
  shows "Print (msg_manual ''http://localhost:8080'') \<in> set (fst (preview_server_main e))
           \<longleftrightarrow> (\<exists>x. browser e = Raises x)"
proof -
  obtain t3 t4 where t: "fst (preview_server_main e) = preview_server_startup e @ t3 @ t4"
      "set t3 \<subseteq> range (Handle preview_server_DIRECTORY)"
      "t4 = [] \<or> t4 = [Print msg_stopped, Close]"
    using preview_server_main_trace [OF assms] by blast
  have "Print (msg_manual ''http://localhost:8080'') \<notin> set t3"
    using t(2) by auto
  moreover have "Print (msg_manual ''http://localhost:8080'') \<notin> set t4"
    using t(3) by (auto simp: manual_not_stopped)
  ultimately show ?thesis
    by (simp add: t(1) preview_server_startup_manual)
qed

lemma preview_aws_main_manual:
  assumes "os_path_exists e preview_aws_DIRECTORY" "bind_error e = None"
  shows "Print (msg_manual ''http://localhost:8081'') \<in> set (fst (preview_aws_main e))
           \<longleftrightarrow> (\<exists>x. browser e = Raises x)"
proof -
  obtain t3 t4 where t: "fst (preview_aws_main e) = preview_aws_startup e @ t3 @ t4"
      "set t3 \<subseteq> range (Handle preview_aws_DIRECTORY)"
      "t4 = [] \<or> t4 = [Print msg_stopped, Close]"
    using preview_aws_main_trace [OF assms] by blast
  have "Print (msg_manual ''http://localhost:8081'') \<notin> set t3"
    using t(2) by auto
  moreover have "Print (msg_manual ''http://localhost:8081'') \<notin> set t4"
    using t(3) by (auto simp: manual_not_stopped)
  ultimately show ?thesis
    by (simp add: t(1) preview_aws_startup_manual)
qed

lemma preview_server_main_opening:
  assumes "os_path_exists e preview_server_DIRECTORY" "bind_error e = None"
    and "browser e = Returns b"
  shows "Print (preview_server_msg_opening ''http://localhost:8080'')
           \<in> set (fst (preview_server_main e))"
  using preview_server_main_trace [OF assms(1,2)] startup_opening(1) [OF assms(3)]
  by auto

lemma preview_aws_main_opening:
  assumes "os_path_exists e preview_aws_DIRECTORY" "bind_error e = None"
    and "browser e = Returns b"
  shows "Print (preview_aws_msg_opening ''http://localhost:8081'')
           \<in> set (fst (preview_aws_main e))"
  using preview_aws_main_trace [OF assms(1,2)] startup_opening(2) [OF assms(3)]
  by auto

lemma env_facts:
  "os_path_exists env_run preview_server_DIRECTORY"
  "os_path_exists env_run preview_aws_DIRECTORY"
  "os_path_exists env_idle preview_server_DIRECTORY"
  "os_path_exists env_idle preview_aws_DIRECTORY"
  "os_path_exists env_no_browser preview_server_DIRECTORY"
  "os_path_exists env_no_browser preview_aws_DIRECTORY"
  "os_path_exists env_regular_file preview_server_DIRECTORY"
  "os_path_exists env_regular_file preview_aws_DIRECTORY"
  "\<not> os_path_exists env_missing preview_server_DIRECTORY"
  "\<not> os_path_exists env_missing preview_aws_DIRECTORY"
  "\<not> os_path_exists env_parent preview_server_DIRECTORY"
  "\<not> os_path_exists env_parent preview_aws_DIRECTORY"
  by (simp_all add: os_path_exists_def os_stat_def os_path_join_def env_run_def env_idle_def
        env_no_browser_def env_regular_file_def env_missing_def env_parent_def
        preview_server_DIRECTORY_def preview_aws_DIRECTORY_def)

lemma env_bind:
  "bind_error env_run = None" "bind_error env_idle = None"
  "bind_error env_no_browser = None" "bind_error env_regular_file = None"
  by (simp_all add: env_run_def env_idle_def env_no_browser_def env_regular_file_def)

lemma env_events:
  "events env_run = map Request [''/index.html''] @ Interrupt # []"
  "events env_no_browser = map Request [''/index.html''] @ Interrupt # []"
  "events env_regular_file = map Request [''/index.html''] @ Interrupt # []"
  "Interrupt \<notin> set (events env_idle)"
  by (simp_all add: env_run_def env_idle_def env_no_browser_def env_regular_file_def)

subsection \<open>A missing root directory\<close>

text \<open>
  C3, as stated: when the root directory does not exist, the process prints an error
  message, never binds a listening socket, and exits with a non-zero exit code.
  Counterexample: with no \<^verbatim>\<open>public\<close> directory \<^verbatim>\<open>main\<close> of \<^verbatim>\<open>preview-server.py\<close>
  returns after its two \<^verbatim>\<open>print\<close> calls; neither script imports \<^verbatim>\<open>sys\<close> or calls
  \<^verbatim>\<open>exit\<close>, so the interpreter ends with status 0.
\<close>

theorem missing_directory_exit_status_counterexample:
  "\<not> os_path_exists env_missing preview_server_DIRECTORY
   \<and> exit_status (snd (preview_server_main env_missing)) = Some 0"
  by (simp add: env_facts(9) preview_server_main_missing)

text \<open>
  C3, amended: when the root directory does not exist, the process prints the error
  message (one line in \<^verbatim>\<open>preview-aws.py\<close>, two in \<^verbatim>\<open>preview-server.py\<close>) and does
  nothing else, so no socket is created, bound or listened on; \<^verbatim>\<open>main\<close> returns and the
  process exits with status 0.
\<close>

theorem missing_directory_returns:
  "(\<not> os_path_exists e preview_server_DIRECTORY \<longrightarrow>
      fst (preview_server_main e)
        = [Print (msg_not_found ''public''), Print msg_project_root]
      \<and> Socket_open \<notin> set (fst (preview_server_main e))
      \<and> Listen \<notin> set (fst (preview_server_main e))
      \<and> (\<forall>host port. Bind host port \<notin> set (fst (preview_server_main e)))
      \<and> snd (preview_server_main e) = Returned
      \<and> exit_status (snd (preview_server_main e)) = Some 0)
   \<and> (\<not> os_path_exists e preview_aws_DIRECTORY \<longrightarrow>
      fst (preview_aws_main e) = [Print (msg_not_found ''frontend'')]
      \<and> Socket_open \<notin> set (fst (preview_aws_main e))
      \<and> Listen \<notin> set (fst (preview_aws_main e))
      \<and> (\<forall>host port. Bind host port \<notin> set (fst (preview_aws_main e)))
      \<and> snd (preview_aws_main e) = Returned
      \<and> exit_status (snd (preview_aws_main e)) = Some 0)"
  by (simp add: preview_server_main_missing preview_aws_main_missing
        preview_server_DIRECTORY_def [symmetric] preview_aws_DIRECTORY_def [symmetric])

theorem missing_directory_returns_witness:
  "\<not> os_path_exists env_missing preview_server_DIRECTORY
   \<and> \<not> os_path_exists env_missing preview_aws_DIRECTORY
   \<and> preview_server_main env_missing
       = ([Print (msg_not_found ''public''), Print msg_project_root], Returned)
   \<and> preview_aws_main env_missing = ([Print (msg_not_found ''frontend'')], Returned)"
  using missing_directory_returns [of env_missing] env_facts(9,10)
  by (simp add: prod_eq_iff)

subsection \<open>The browser launch\<close>

text \<open>
  C4: when no browser can be started (the case the claim names: no GUI, no browser
  registered) \<^verbatim>\<open>webbrowser.open\<close> returns \<^verbatim>\<open>False\<close> and raises nothing. Both scripts
  then print the line that a browser is opening, not the fallback line; they do go on
  to serve the request and to stop at the interrupt.
\<close>

theorem no_browser_prints_opening:
  "browser env_no_browser = Returns False
   \<and> Print (preview_server_msg_opening ''http://localhost:8080'')
       \<in> set (fst (preview_server_main env_no_browser))
   \<and> Print (msg_manual ''http://localhost:8080'')
       \<notin> set (fst (preview_server_main env_no_browser))
   \<and> Print (preview_aws_msg_opening ''http://localhost:8081'')
       \<in> set (fst (preview_aws_main env_no_browser))
   \<and> Print (msg_manual ''http://localhost:8081'')
       \<notin> set (fst (preview_aws_main env_no_browser))
   \<and> Handle ''public'' ''/index.html'' \<in> set (fst (preview_server_main env_no_browser))
   \<and> Handle ''frontend'' ''/index.html'' \<in> set (fst (preview_aws_main env_no_browser))"
proof -
  have b: "browser env_no_browser = Returns False"
    by (simp add: env_no_browser_def)
  have s: "fst (preview_server_main env_no_browser)
             = preview_server_startup env_no_browser
               @ [Handle ''public'' ''/index.html'', Print msg_stopped, Close]"
    using main_interrupted(1) [OF env_bind(3) env_events(2) env_facts(5)]
    by (simp add: preview_server_DIRECTORY_def)
  have a: "fst (preview_aws_main env_no_browser)
             = preview_aws_startup env_no_browser
               @ [Handle ''frontend'' ''/index.html'', Print msg_stopped, Close]"
    using main_interrupted(2) [OF env_bind(3) env_events(2) env_facts(6)]
    by (simp add: preview_aws_DIRECTORY_def)
  show ?thesis
    using b preview_server_main_manual [OF env_facts(5) env_bind(3)]
      preview_aws_main_manual [OF env_facts(6) env_bind(3)]
      preview_server_main_opening [OF env_facts(5) env_bind(3) b]
      preview_aws_main_opening [OF env_facts(6) env_bind(3) b]
    by (simp add: s a)
qed

text \<open>
  C9: in a run that gets to the browser launch, the fallback line is printed exactly
  when \<^verbatim>\<open>webbrowser.open\<close> raises; when it returns \<^verbatim>\<open>False\<close> the line that the browser
  is opening is printed and the fallback line is not.
\<close>

theorem fallback_only_on_exception:
  assumes "bind_error e = None"
  shows "(os_path_exists e preview_server_DIRECTORY \<longrightarrow>
            (Print (msg_manual ''http://localhost:8080'') \<in> set (fst (preview_server_main e))
               \<longleftrightarrow> (\<exists>x. browser e = Raises x))
            \<and> (browser e = Returns False \<longrightarrow>
                 Print (preview_server_msg_opening ''http://localhost:8080'')
                   \<in> set (fst (preview_server_main e))
                 \<and> Print (msg_manual ''http://localhost:8080'')
                     \<notin> set (fst (preview_server_main e))))
         \<and> (os_path_exists e preview_aws_DIRECTORY \<longrightarrow>
            (Print (msg_manual ''http://localhost:8081'') \<in> set (fst (preview_aws_main e))
               \<longleftrightarrow> (\<exists>x. browser e = Raises x))
            \<and> (browser e = Returns False \<longrightarrow>
                 Print (preview_aws_msg_opening ''http://localhost:8081'')
                   \<in> set (fst (preview_aws_main e))
                 \<and> Print (msg_manual ''http://localhost:8081'')
                     \<notin> set (fst (preview_aws_main e))))"
proof (intro conjI impI)
  assume d: "os_path_exists e preview_server_DIRECTORY"
  show "Print (msg_manual ''http://localhost:8080'') \<in> set (fst (preview_server_main e))
          \<longleftrightarrow> (\<exists>x. browser e = Raises x)"
    by (rule preview_server_main_manual [OF d assms])
  assume b: "browser e = Returns False"
  show "Print (preview_server_msg_opening ''http://localhost:8080'')
          \<in> set (fst (preview_server_main e))"
    by (rule preview_server_main_opening [OF d assms b])
  show "Print (msg_manual ''http://localhost:8080'') \<notin> set (fst (preview_server_main e))"
    using b by (simp add: preview_server_main_manual [OF d assms])
next
  assume d: "os_path_exists e preview_aws_DIRECTORY"
  show "Print (msg_manual ''http://localhost:8081'') \<in> set (fst (preview_aws_main e))
          \<longleftrightarrow> (\<exists>x. browser e = Raises x)"
    by (rule preview_aws_main_manual [OF d assms])
  assume b: "browser e = Returns False"
  show "Print (preview_aws_msg_opening ''http://localhost:8081'')
          \<in> set (fst (preview_aws_main e))"
    by (rule preview_aws_main_opening [OF d assms b])
  show "Print (msg_manual ''http://localhost:8081'') \<notin> set (fst (preview_aws_main e))"
    using b by (simp add: preview_aws_main_manual [OF d assms])
qed

theorem fallback_only_on_exception_witness:
  "bind_error env_no_browser = None
   \<and> os_path_exists env_no_browser preview_server_DIRECTORY
   \<and> os_path_exists env_no_browser preview_aws_DIRECTORY
   \<and> browser env_no_browser = Returns False
   \<and> Print (preview_server_msg_opening ''http://localhost:8080'')
       \<in> set (fst (preview_server_main env_no_browser))
   \<and> Print (msg_manual ''http://localhost:8080'')
       \<notin> set (fst (preview_server_main env_no_browser))
   \<and> Print (preview_aws_msg_opening ''http://localhost:8081'')
       \<in> set (fst (preview_aws_main env_no_browser))
   \<and> Print (msg_manual ''http://localhost:8081'')
       \<notin> set (fst (preview_aws_main env_no_browser))"
proof -
  have b: "browser env_no_browser = Returns False"
    by (simp add: env_no_browser_def)
  show ?thesis
    using fallback_only_on_exception [OF env_bind(3)] env_bind(3) env_facts(5,6) b
    by simp
qed

subsection \<open>Serving until the interrupt\<close>

text \<open>
  C5: in a run that has bound its socket, as long as no interrupt arrives the process
  stays in the serve loop with the socket open, whatever requests arrive. When the
  interrupt arrives after the requests \<open>rs\<close>, these requests have been handled, the
  farewell line is printed, the socket is closed by the \<^verbatim>\<open>with\<close> statement as the last
  step and exactly once, and \<^verbatim>\<open>main\<close> returns, so the process exits with status 0 and
  the interrupt does not propagate.
\<close>

theorem serve_until_interrupt:
  assumes "os_path_exists e preview_server_DIRECTORY" "os_path_exists e preview_aws_DIRECTORY"
    and "bind_error e = None"
  shows "(Interrupt \<notin> set (events e) \<longrightarrow>
            snd (preview_server_main e) = Serving
            \<and> Close \<notin> set (fst (preview_server_main e))
            \<and> snd (preview_aws_main e) = Serving
            \<and> Close \<notin> set (fst (preview_aws_main e)))
         \<and> (events e = map Request rs @ Interrupt # rest \<longrightarrow>
            preview_server_main e =
              (preview_server_startup e @ map (Handle ''public'') rs
               @ [Print msg_stopped, Close], Returned)
            \<and> count_list (fst (preview_server_main e)) Close = 1
            \<and> exit_status (snd (preview_server_main e)) = Some 0
            \<and> preview_aws_main e =
              (preview_aws_startup e @ map (Handle ''frontend'') rs
               @ [Print msg_stopped, Close], Returned)
            \<and> count_list (fst (preview_aws_main e)) Close = 1
            \<and> exit_status (snd (preview_aws_main e)) = Some 0)"
proof (intro conjI impI)
  assume w: "Interrupt \<notin> set (events e)"
  show "snd (preview_server_main e) = Serving"
    and "Close \<notin> set (fst (preview_server_main e))"
    using main_waiting(1) [OF assms(3) w assms(1)] by simp_all
  show "snd (preview_aws_main e) = Serving"
    and "Close \<notin> set (fst (preview_aws_main e))"
    using main_waiting(2) [OF assms(3) w assms(2)] by simp_all
next
  assume i: "events e = map Request rs @ Interrupt # rest"
  have s: "preview_server_main e =
              (preview_server_startup e @ map (Handle preview_server_DIRECTORY) rs
               @ [Print msg_stopped, Close], Returned)"
    by (rule main_interrupted(1) [OF assms(3) i assms(1)])
  have a: "preview_aws_main e =
              (preview_aws_startup e @ map (Handle preview_aws_DIRECTORY) rs
               @ [Print msg_stopped, Close], Returned)"
    by (rule main_interrupted(2) [OF assms(3) i assms(2)])
  show "preview_server_main e =
              (preview_server_startup e @ map (Handle ''public'') rs
               @ [Print msg_stopped, Close], Returned)"
    using s by (simp add: preview_server_DIRECTORY_def)
  show "preview_aws_main e =
              (preview_aws_startup e @ map (Handle ''frontend'') rs
               @ [Print msg_stopped, Close], Returned)"
    using a by (simp add: preview_aws_DIRECTORY_def)
  show "count_list (fst (preview_server_main e)) Close = 1"
    by (simp only: s fst_conv count_close(1))
  show "count_list (fst (preview_aws_main e)) Close = 1"
    by (simp only: a fst_conv count_close(2))
  show "exit_status (snd (preview_server_main e)) = Some 0"
    by (simp add: s)
  show "exit_status (snd (preview_aws_main e)) = Some 0"
    by (simp add: a)
qed

theorem serve_until_interrupt_witness:
  "os_path_exists env_idle preview_server_DIRECTORY
   \<and> os_path_exists env_idle preview_aws_DIRECTORY
   \<and> bind_error env_idle = None
   \<and> Interrupt \<notin> set (events env_idle)
   \<and> snd (preview_server_main env_idle) = Serving
   \<and> snd (preview_aws_main env_idle) = Serving
   \<and> os_path_exists env_run preview_server_DIRECTORY
   \<and> os_path_exists env_run preview_aws_DIRECTORY
   \<and> bind_error env_run = None
   \<and> events env_run = map Request [''/index.html''] @ Interrupt # []
   \<and> preview_server_main env_run =
       (preview_server_startup env_run @ map (Handle ''public'') [''/index.html'']
        @ [Print msg_stopped, Close], Returned)
   \<and> count_list (fst (preview_server_main env_run)) Close = 1
   \<and> preview_aws_main env_run =
       (preview_aws_startup env_run @ map (Handle ''frontend'') [''/index.html'']
        @ [Print msg_stopped, Close], Returned)
   \<and> count_list (fst (preview_aws_main env_run)) Close = 1"
proof -
  note idle = serve_until_interrupt [OF env_facts(3) env_facts(4) env_bind(2),
      of "[]" "[]"]
  note run = serve_until_interrupt [OF env_facts(1) env_facts(2) env_bind(1),
      of "[''/index.html'']" "[]"]
  have i: "events env_run = map Request [''/index.html''] @ Interrupt # []"
    by (rule env_events(1))
  from idle have "snd (preview_server_main env_idle) = Serving
                  \<and> snd (preview_aws_main env_idle) = Serving"
    using env_events(4) by blast
  moreover from run i have
    "preview_server_main env_run =
       (preview_server_startup env_run @ map (Handle ''public'') [''/index.html'']
        @ [Print msg_stopped, Close], Returned)
     \<and> count_list (fst (preview_server_main env_run)) Close = 1
     \<and> preview_aws_main env_run =
       (preview_aws_startup env_run @ map (Handle ''frontend'') [''/index.html'']
        @ [Print msg_stopped, Close], Returned)
     \<and> count_list (fst (preview_aws_main env_run)) Close = 1"
    by blast
  ultimately show ?thesis
    using env_facts(1,2,3,4) env_bind(1,2) env_events(4) i by blast
qed

subsection \<open>Fixed configuration\<close>

lemma env_unread:
  "wd (e\<lparr>argv := a\<rparr>) = wd e" "fs (e\<lparr>argv := a\<rparr>) = fs e"
  "bind_error (e\<lparr>argv := a\<rparr>) = bind_error e" "browser (e\<lparr>argv := a\<rparr>) = browser e"
  "events (e\<lparr>argv := a\<rparr>) = events e"
  "wd (e\<lparr>script_dir := s\<rparr>) = wd e" "fs (e\<lparr>script_dir := s\<rparr>) = fs e"
  "bind_error (e\<lparr>script_dir := s\<rparr>) = bind_error e"
  "browser (e\<lparr>script_dir := s\<rparr>) = browser e"
  "events (e\<lparr>script_dir := s\<rparr>) = events e"
  by simp_all

lemma main_argv:
  "preview_server_main (e\<lparr>argv := a\<rparr>) = preview_server_main e"
  "preview_aws_main (e\<lparr>argv := a\<rparr>) = preview_aws_main e"
  unfolding preview_server_main_def preview_aws_main_def os_path_exists_def os_stat_def
    TCPServer_def env_unread
  by (rule refl)+

lemma main_script_dir:
  "preview_server_main (e\<lparr>script_dir := s\<rparr>) = preview_server_main e"
  "preview_aws_main (e\<lparr>script_dir := s\<rparr>) = preview_aws_main e"
  unfolding preview_server_main_def preview_aws_main_def os_path_exists_def os_stat_def
    TCPServer_def env_unread
  by (rule refl)+

lemma preview_server_main_config:
  "Bind host port \<in> set (fst (preview_server_main e)) \<Longrightarrow> host = [] \<and> port = 8080"
  "Handle d r \<in> set (fst (preview_server_main e)) \<Longrightarrow> d = ''public''"
proof -
  have "(Bind host port \<in> set (fst (preview_server_main e)) \<longrightarrow> host = [] \<and> port = 8080)
        \<and> (Handle d r \<in> set (fst (preview_server_main e)) \<longrightarrow> d = ''public'')"
  proof (cases "os_path_exists e preview_server_DIRECTORY")
    case False
    then show ?thesis by (simp add: preview_server_main_missing)
  next
    case True
    show ?thesis
    proof (cases "bind_error e")
      case (Some x)
      then show ?thesis by (simp add: preview_server_main_bind_error [OF True])
    next
      case None
      obtain t3 t4 where t: "fst (preview_server_main e) = preview_server_startup e @ t3 @ t4"
          "set t3 \<subseteq> range (Handle preview_server_DIRECTORY)"
          "t4 = [] \<or> t4 = [Print msg_stopped, Close]"
        using preview_server_main_trace [OF True None] by blast
      from t(2,3) show ?thesis
        by (auto simp: t(1) preview_server_startup_def preview_server_PORT_def
              preview_server_DIRECTORY_def)
    qed
  qed
  then show "Bind host port \<in> set (fst (preview_server_main e)) \<Longrightarrow> host = [] \<and> port = 8080"
    and "Handle d r \<in> set (fst (preview_server_main e)) \<Longrightarrow> d = ''public''"
    by simp_all
qed

lemma preview_aws_main_config:
  "Bind host port \<in> set (fst (preview_aws_main e)) \<Longrightarrow> host = [] \<and> port = 8081"
  "Handle d r \<in> set (fst (preview_aws_main e)) \<Longrightarrow> d = ''frontend''"
proof -
  have "(Bind host port \<in> set (fst (preview_aws_main e)) \<longrightarrow> host = [] \<and> port = 8081)
        \<and> (Handle d r \<in> set (fst (preview_aws_main e)) \<longrightarrow> d = ''frontend'')"
  proof (cases "os_path_exists e preview_aws_DIRECTORY")
    case False
    then show ?thesis by (simp add: preview_aws_main_missing)
  next
    case True
    show ?thesis
    proof (cases "bind_error e")
      case (Some x)
      then show ?thesis by (simp add: preview_aws_main_bind_error [OF True])
    next
      case None
      obtain t3 t4 where t: "fst (preview_aws_main e) = preview_aws_startup e @ t3 @ t4"
          "set t3 \<subseteq> range (Handle preview_aws_DIRECTORY)"
          "t4 = [] \<or> t4 = [Print msg_stopped, Close]"
        using preview_aws_main_trace [OF True None] by blast
      from t(2,3) show ?thesis
        by (auto simp: t(1) preview_aws_startup_def preview_aws_PORT_def
              preview_aws_DIRECTORY_def)
    qed
  qed
  then show "Bind host port \<in> set (fst (preview_aws_main e)) \<Longrightarrow> host = [] \<and> port = 8081"
    and "Handle d r \<in> set (fst (preview_aws_main e)) \<Longrightarrow> d = ''frontend''"
    by simp_all
qed

lemma main_take3:
  assumes "bind_error e = None"
  shows "os_path_exists e preview_server_DIRECTORY \<Longrightarrow>
           take 3 (fst (preview_server_main e)) = [Socket_open, Bind [] 8080, Listen]"
    and "os_path_exists e preview_aws_DIRECTORY \<Longrightarrow>
           take 3 (fst (preview_aws_main e)) = [Socket_open, Bind [] 8081, Listen]"
proof -
  assume d: "os_path_exists e preview_server_DIRECTORY"
  show "take 3 (fst (preview_server_main e)) = [Socket_open, Bind [] 8080, Listen]"
    using preview_server_main_trace [OF d assms]
    by (auto simp: preview_server_startup_def preview_server_PORT_def)
next
  assume d: "os_path_exists e preview_aws_DIRECTORY"
  show "take 3 (fst (preview_aws_main e)) = [Socket_open, Bind [] 8081, Listen]"
    using preview_aws_main_trace [OF d assms]
    by (auto simp: preview_aws_startup_def preview_aws_PORT_def)
qed

lemma main_take1:
  "os_path_exists e preview_server_DIRECTORY \<Longrightarrow>
     take 1 (fst (preview_server_main e)) = [Socket_open]"
  "os_path_exists e preview_aws_DIRECTORY \<Longrightarrow>
     take 1 (fst (preview_aws_main e)) = [Socket_open]"
proof -
  assume d: "os_path_exists e preview_server_DIRECTORY"
  show "take 1 (fst (preview_server_main e)) = [Socket_open]"
  proof (cases "bind_error e")
    case None
    have "take 1 (take 3 (fst (preview_server_main e))) = [Socket_open]"
      by (simp only: main_take3(1) [OF None d]) simp
    then show ?thesis by simp
  next
    case (Some x)
    then show ?thesis by (simp add: preview_server_main_bind_error [OF d])
  qed
next
  assume d: "os_path_exists e preview_aws_DIRECTORY"
  show "take 1 (fst (preview_aws_main e)) = [Socket_open]"
  proof (cases "bind_error e")
    case None
    have "take 1 (take 3 (fst (preview_aws_main e))) = [Socket_open]"
      by (simp only: main_take3(2) [OF None d]) simp
    then show ?thesis by simp
  next
    case (Some x)
    then show ?thesis by (simp add: preview_aws_main_bind_error [OF d])
  qed
qed

text \<open>
  C6: neither script reads its command line (a run is the same for every \<open>argv\<close>); the
  constants are 8080 and \<^verbatim>\<open>public\<close> in \<^verbatim>\<open>preview-server.py\<close>, 8081 and \<^verbatim>\<open>frontend\<close> in
  \<^verbatim>\<open>preview-aws.py\<close>; and throughout a run the only address ever bound is the constant
  port on all interfaces and every handler instance serves the constant directory.
\<close>

theorem fixed_configuration:
  "preview_server_main (e\<lparr>argv := a\<rparr>) = preview_server_main e
   \<and> preview_aws_main (e\<lparr>argv := a\<rparr>) = preview_aws_main e
   \<and> preview_server_PORT = 8080 \<and> preview_server_DIRECTORY = ''public''
   \<and> preview_aws_PORT = 8081 \<and> preview_aws_DIRECTORY = ''frontend''
   \<and> (Bind host port \<in> set (fst (preview_server_main e)) \<longrightarrow> host = [] \<and> port = 8080)
   \<and> (Handle d r \<in> set (fst (preview_server_main e)) \<longrightarrow> d = ''public'')
   \<and> (Bind host port \<in> set (fst (preview_aws_main e)) \<longrightarrow> host = [] \<and> port = 8081)
   \<and> (Handle d r \<in> set (fst (preview_aws_main e)) \<longrightarrow> d = ''frontend'')
   \<and> directory (preview_server_Handler_init h) = ''public''
   \<and> directory (preview_aws_Handler_init h) = ''frontend''"
  using preview_server_main_config(1) [where e = e and host = host and port = port]
    preview_server_main_config(2) [where e = e and d = d and r = r]
    preview_aws_main_config(1) [where e = e and host = host and port = port]
    preview_aws_main_config(2) [where e = e and d = d and r = r]
  by (simp add: main_argv preview_server_PORT_def preview_server_DIRECTORY_def
        preview_aws_PORT_def preview_aws_DIRECTORY_def preview_server_Handler_init_def
        preview_aws_Handler_init_def)

theorem fixed_configuration_witness:
  "preview_server_main (env_run\<lparr>argv := [''--port'', ''9000'']\<rparr>) = preview_server_main env_run
   \<and> preview_aws_main (env_run\<lparr>argv := [''--port'', ''9000'']\<rparr>) = preview_aws_main env_run
   \<and> Bind [] 8080 \<in> set (fst (preview_server_main env_run))
   \<and> Handle ''public'' ''/index.html'' \<in> set (fst (preview_server_main env_run))
   \<and> Bind [] 8081 \<in> set (fst (preview_aws_main env_run))
   \<and> Handle ''frontend'' ''/index.html'' \<in> set (fst (preview_aws_main env_run))"
proof -
  have s: "fst (preview_server_main env_run)
             = preview_server_startup env_run
               @ [Handle ''public'' ''/index.html'', Print msg_stopped, Close]"
    using main_interrupted(1) [OF env_bind(1) env_events(1) env_facts(1)]
    by (simp add: preview_server_DIRECTORY_def)
  have a: "fst (preview_aws_main env_run)
             = preview_aws_startup env_run
               @ [Handle ''frontend'' ''/index.html'', Print msg_stopped, Close]"
    using main_interrupted(2) [OF env_bind(1) env_events(1) env_facts(2)]
    by (simp add: preview_aws_DIRECTORY_def)
  have "Bind [] 8080 \<in> set (fst (preview_server_main env_run))"
    and "Handle ''public'' ''/index.html'' \<in> set (fst (preview_server_main env_run))"
    and "Bind [] 8081 \<in> set (fst (preview_aws_main env_run))"
    and "Handle ''frontend'' ''/index.html'' \<in> set (fst (preview_aws_main env_run))"
    by (simp_all add: s a preview_server_startup_def preview_aws_startup_def
          preview_server_PORT_def preview_aws_PORT_def)
  then show ?thesis
    using fixed_configuration [where e = env_run and a = "[''--port'', ''9000'']"] by simp
qed

subsection \<open>The existence check\<close>

text \<open>
  C8: the startup check asks only whether something exists under the name. Whatever
  kind of entry \<open>k\<close> the name leads to (a regular file included), the check passes and
  the server's constructor runs: the socket is created, and unless binding fails it is
  bound to the port and listening.
\<close>

theorem existence_check_any_entry:
  "(os_stat e preview_server_DIRECTORY = Some k \<longrightarrow>
      os_path_exists e preview_server_DIRECTORY
      \<and> take 1 (fst (preview_server_main e)) = [Socket_open]
      \<and> (bind_error e = None \<longrightarrow>
           take 3 (fst (preview_server_main e)) = [Socket_open, Bind [] 8080, Listen]))
   \<and> (os_stat e preview_aws_DIRECTORY = Some k \<longrightarrow>
      os_path_exists e preview_aws_DIRECTORY
      \<and> take 1 (fst (preview_aws_main e)) = [Socket_open]
      \<and> (bind_error e = None \<longrightarrow>
           take 3 (fst (preview_aws_main e)) = [Socket_open, Bind [] 8081, Listen]))"
  using main_take1 [where e = e] main_take3 [where e = e]
  by (auto simp: os_path_exists_def)

theorem existence_check_any_entry_witness:
  "os_stat env_regular_file preview_server_DIRECTORY = Some RegularFile
   \<and> os_stat env_regular_file preview_aws_DIRECTORY = Some RegularFile
   \<and> bind_error env_regular_file = None
   \<and> take 3 (fst (preview_server_main env_regular_file)) = [Socket_open, Bind [] 8080, Listen]
   \<and> take 3 (fst (preview_aws_main env_regular_file)) = [Socket_open, Bind [] 8081, Listen]"
proof -
  have f: "os_stat env_regular_file preview_server_DIRECTORY = Some RegularFile"
    "os_stat env_regular_file preview_aws_DIRECTORY = Some RegularFile"
    by (simp_all add: os_stat_def os_path_join_def env_regular_file_def env_run_def
          preview_server_DIRECTORY_def preview_aws_DIRECTORY_def)
  show ?thesis
    using existence_check_any_entry [where e = env_regular_file and k = RegularFile] f
      env_bind(4)
    by simp
qed

subsection \<open>Resolution from the working directory\<close>

lemma os_path_dirname_slash:
  assumes "CHR ''/'' \<in> set w"
  shows "os_path_dirname w \<noteq> []"
proof -
  define hp where "hp = rev (dropWhile (\<lambda>c. c \<noteq> CHR ''/'') (rev w))"
  have d: "os_path_dirname w =
             (if hp \<noteq> [] \<and> hp \<noteq> replicate (length hp) (CHR ''/'')
              then rev (dropWhile (\<lambda>c. c = CHR ''/'') (rev hp)) else hp)"
    unfolding os_path_dirname_def hp_def Let_def by (rule refl)
  have "dropWhile (\<lambda>c. c \<noteq> CHR ''/'') (rev w) \<noteq> []"
    using assms by (simp add: dropWhile_eq_Nil_conv)
  then have n: "hp \<noteq> []"
    unfolding hp_def by simp
  show ?thesis
  proof (cases "hp \<noteq> replicate (length hp) (CHR ''/'')")
    case True
    have "dropWhile (\<lambda>c. c = CHR ''/'') (rev hp) \<noteq> []"
    proof
      assume "dropWhile (\<lambda>c. c = CHR ''/'') (rev hp) = []"
      then have "\<forall>c\<in>set hp. c = CHR ''/''"
        by (simp add: dropWhile_eq_Nil_conv)
      then have "replicate (length hp) (CHR ''/'') = hp"
        by (rule replicate_length_same)
      with True show False by simp
    qed
    then have "rev (dropWhile (\<lambda>c. c = CHR ''/'') (rev hp)) \<noteq> []"
      by simp
    with True n show ?thesis
      by (simp only: d if_True simp_thms)
  next
    case False
    with n show ?thesis
      by (simp only: d if_False simp_thms)
  qed
qed

lemma os_path_join_prefix:
  assumes "p \<noteq> []" "CHR ''/'' \<notin> set w"
  shows "\<exists>s. os_path_join p w = p @ s"
proof -
  have "take 1 w \<noteq> ''/''"
    using assms(2) by (cases w) auto
  then show ?thesis
    by (simp add: os_path_join_def)
qed

lemma translate_words_prefix:
  "p \<noteq> [] \<Longrightarrow> \<exists>s. translate_words p ws = p @ s"
proof (induction ws arbitrary: p)
  case Nil
  then show ?case by simp
next
  case (Cons w ws)
  show ?case
  proof (cases "os_path_dirname w \<noteq> [] \<or> w = ''.'' \<or> w = ''..''")
    case True
    then show ?thesis using Cons.IH [OF Cons.prems] by simp
  next
    case False
    then have "CHR ''/'' \<notin> set w"
      using os_path_dirname_slash [of w] by blast
    then obtain s where s: "os_path_join p w = p @ s"
      using os_path_join_prefix [OF Cons.prems] by blast
    obtain s' where "translate_words (p @ s) ws = (p @ s) @ s'"
      using Cons.IH [of "p @ s"] Cons.prems by blast
    with False s show ?thesis by simp
  qed
qed

lemma translate_path_prefix:
  "directory h \<noteq> [] \<Longrightarrow> \<exists>s. translate_path h ws ts = directory h @ s"
  using translate_words_prefix [of "directory h" ws]
  by (auto simp: translate_path_def Let_def)

lemma os_path_join_relative:
  "take 1 p \<noteq> ''/'' \<Longrightarrow> p \<noteq> [] \<Longrightarrow> os_path_join c (p @ s) = os_path_join c p @ s"
  by (cases p) (simp_all add: os_path_join_def)

lemma translate_path_relative:
  assumes "directory h \<noteq> []" "take 1 (directory h) \<noteq> ''/''"
  shows "os_path_join c (translate_path h ws ts)
           = os_path_join c (directory h)
             @ drop (length (directory h)) (translate_path h ws ts)"
proof -
  obtain s where s: "translate_path h ws ts = directory h @ s"
    using translate_path_prefix [OF assms(1)] by blast
  show ?thesis
    by (simp add: s os_path_join_relative [OF assms(2) assms(1)])
qed

text \<open>
  C10: the startup check looks \<^verbatim>\<open>DIRECTORY\<close> up from the working directory, and the file
  a handler opens for a request lies under the working directory joined with
  \<^verbatim>\<open>DIRECTORY\<close>, for every list of path components. The directory of the script file
  plays no part in a run. Started in \<^verbatim>\<open>/home/u/site\<close> the scripts serve; started in
  \<^verbatim>\<open>/home/u\<close>, with the same files and the same script, they report the directory missing.
\<close>

theorem resolved_from_working_directory:
  "os_path_exists e preview_server_DIRECTORY
     = (map_of (fs e) (os_path_join (wd e) ''public'') \<noteq> None)
   \<and> os_path_exists e preview_aws_DIRECTORY
     = (map_of (fs e) (os_path_join (wd e) ''frontend'') \<noteq> None)
   \<and> os_path_join (wd e) (translate_path (preview_server_Handler_init h) ws ts)
     = os_path_join (wd e) ''public''
       @ drop (length ''public'') (translate_path (preview_server_Handler_init h) ws ts)
   \<and> os_path_join (wd e) (translate_path (preview_aws_Handler_init h) ws ts)
     = os_path_join (wd e) ''frontend''
       @ drop (length ''frontend'') (translate_path (preview_aws_Handler_init h) ws ts)
   \<and> preview_server_main (e\<lparr>script_dir := s\<rparr>) = preview_server_main e
   \<and> preview_aws_main (e\<lparr>script_dir := s\<rparr>) = preview_aws_main e
   \<and> env_parent = env_run\<lparr>wd := ''/home/u''\<rparr>
   \<and> snd (preview_server_main env_run) = Returned
   \<and> Handle ''public'' ''/index.html'' \<in> set (fst (preview_server_main env_run))
   \<and> preview_server_main env_parent
       = ([Print (msg_not_found ''public''), Print msg_project_root], Returned)
   \<and> Handle ''frontend'' ''/index.html'' \<in> set (fst (preview_aws_main env_run))
   \<and> preview_aws_main env_parent = ([Print (msg_not_found ''frontend'')], Returned)"
proof -
  have s: "preview_server_main env_run
             = (preview_server_startup env_run
                @ [Handle ''public'' ''/index.html'', Print msg_stopped, Close], Returned)"
    using main_interrupted(1) [OF env_bind(1) env_events(1) env_facts(1)]
    by (simp add: preview_server_DIRECTORY_def)
  have a: "preview_aws_main env_run
             = (preview_aws_startup env_run
                @ [Handle ''frontend'' ''/index.html'', Print msg_stopped, Close], Returned)"
    using main_interrupted(2) [OF env_bind(1) env_events(1) env_facts(2)]
    by (simp add: preview_aws_DIRECTORY_def)
  have ps: "os_path_join (wd e) (translate_path (preview_server_Handler_init h) ws ts)
             = os_path_join (wd e) ''public''
               @ drop (length ''public'') (translate_path (preview_server_Handler_init h) ws ts)"
    using translate_path_relative [of "preview_server_Handler_init h" "wd e" ws ts]
    by (simp add: preview_server_Handler_init_def preview_server_DIRECTORY_def)
  have pa: "os_path_join (wd e) (translate_path (preview_aws_Handler_init h) ws ts)
             = os_path_join (wd e) ''frontend''
               @ drop (length ''frontend'') (translate_path (preview_aws_Handler_init h) ws ts)"
    using translate_path_relative [of "preview_aws_Handler_init h" "wd e" ws ts]
    by (simp add: preview_aws_Handler_init_def preview_aws_DIRECTORY_def)
  have m: "preview_server_main env_parent
             = ([Print (msg_not_found ''public''), Print msg_project_root], Returned)"
    "preview_aws_main env_parent = ([Print (msg_not_found ''frontend'')], Returned)"
    using preview_server_main_missing [OF env_facts(11)]
      preview_aws_main_missing [OF env_facts(12)]
    by (simp_all add: preview_server_DIRECTORY_def preview_aws_DIRECTORY_def)
  show ?thesis
    by (simp add: ps pa m s a main_script_dir env_parent_def [symmetric]
          os_path_exists_def os_stat_def
          preview_server_DIRECTORY_def preview_aws_DIRECTORY_def)
qed

end
